theory Spec2Isabelle
  imports Complex_Main "HOL-Library.Multiset"
begin

section \<open>Constants (planisuss\_constants.py)\<close>

definition NEIGHBORHOOD_E :: int where "NEIGHBORHOOD_E = 1"
definition NEIGHBORHOOD_C :: int where "NEIGHBORHOOD_C = 1"
definition MAX_HERD :: nat where "MAX_HERD = 300"
definition MAX_PRIDE :: nat where "MAX_PRIDE = 100"
definition MAX_ENERGY_E :: int where "MAX_ENERGY_E = 100"
definition MAX_ENERGY_C :: int where "MAX_ENERGY_C = 100"
definition MAX_LIFE_E :: int where "MAX_LIFE_E = 1000"
definition MAX_LIFE_C :: int where "MAX_LIFE_C = 1000"
definition MIN_LIFE_E :: int where "MIN_LIFE_E = 10"
definition MIN_LIFE_C :: int where "MIN_LIFE_C = 10"
definition AGING_E :: int where "AGING_E = 1"
definition AGING_C :: int where "AGING_C = 1"
definition GROWING :: int where "GROWING = 1"
definition HUNGER_E :: real where "HUNGER_E = 1.1"
definition HUNGER_C :: real where "HUNGER_C = 1.03"
definition EAT_C :: real where "EAT_C = 0.05"
definition WIN_FIGHT :: real where "WIN_FIGHT = 0.1"
definition MIN_MOVEMENT_E :: real where "MIN_MOVEMENT_E = 3"
definition MAX_MOVEMENT_E :: real where "MAX_MOVEMENT_E = 300"
definition MIN_MOVEMENT_C :: real where "MIN_MOVEMENT_C = 3"
definition MAX_MOVEMENT_C :: real where "MAX_MOVEMENT_C = 300"
definition JOIN_PRIDE :: real where "JOIN_PRIDE = 0.9"
definition NUM_ERBAST_LB :: int where "NUM_ERBAST_LB = 10"
definition NUM_ERBAST_UB :: int where "NUM_ERBAST_UB = 30"
definition NUM_CARVIZ_LB :: int where "NUM_CARVIZ_LB = 3"
definition NUM_CARVIZ_UB :: int where "NUM_CARVIZ_UB = 10"

section \<open>Data model\<close>

text \<open>
  Class \<open>Specie\<close> (with its two subclasses \<open>Erbast\<close> and \<open>Carviz\<close>, which add
  nothing) is one record. Python's unbounded integers are \<open>int\<close>. The float
  \<open>social_attitude\<close> is read as a real number: the model follows the arithmetic of the
  source and leaves floating-point rounding out.
\<close>

record animal =
  energy :: int
  lifetime :: int
  age :: int
  social_attitude :: real
  moved :: bool

text \<open>\<open>Specie.__init__(energy, lifetime, social_attitude, age=0)\<close>; \<open>moved\<close> starts False.\<close>

definition create_animal :: "int \<Rightarrow> int \<Rightarrow> real \<Rightarrow> animal" where
  "create_animal e l s =
     \<lparr>energy = e, lifetime = l, age = 0, social_attitude = s, moved = False\<rparr>"

text \<open>Class \<open>Group\<close> (\<open>Herd\<close> and \<open>Pride\<close>): the population in list order and the four
  cached totals.\<close>

record group =
  population :: "animal list"
  total_energy :: int
  total_lifetime :: int
  total_age :: int
  total_social_attitude :: real

definition new_group :: group where
  "new_group = \<lparr>population = [], total_energy = 0, total_lifetime = 0, total_age = 0,
                 total_social_attitude = 0\<rparr>"

datatype error = ZeroDivisionError | IndexError | ValueError

type_synonym cell = "int \<times> int"

text \<open>The numpy array \<open>grid[k, i, j]\<close>: layer 0 is the Vegetob density (\<open>-100\<close> is water),
  layer 1 the number of Erbast, layer 2 the number of Carviz. Cells that index it are ground
  cells of the world, inside the array.\<close>

type_synonym grid = "nat \<Rightarrow> cell \<Rightarrow> int"

definition grid_set :: "grid \<Rightarrow> nat \<Rightarrow> cell \<Rightarrow> int \<Rightarrow> grid" where
  "grid_set g k c v = g(k := (g k)(c := v))"

section \<open>Random draws\<close>

text \<open>
  Every call of the pseudo-random generator is an explicit argument: the value the call
  returned. \<open>random.randint(a, b)\<close> raises ValueError on an empty range and returns a value
  \<open>d\<close> with \<open>a \<le> d \<le> b\<close> otherwise; theorems that depend on the range assume it of \<open>d\<close>.
\<close>

definition randint :: "int \<Rightarrow> int \<Rightarrow> int \<Rightarrow> error + int" where
  "randint a b d = (if a \<le> b then Inr d else Inl ValueError)"

section \<open>Group\<close>

text \<open>\<open>Group.update_stats\<close>: the four totals are the sums over the population.\<close>

definition update_stats :: "group \<Rightarrow> group" where
  "update_stats g =
     g\<lparr>total_energy := sum_list (map energy (population g)),
       total_lifetime := sum_list (map lifetime (population g)),
       total_age := sum_list (map age (population g)),
       total_social_attitude := sum_list (map social_attitude (population g))\<rparr>"

text \<open>
  \<open>Group.join_groups(group_list, res_group, MAX_GROUP)\<close>, where \<open>res_group\<close> is a fresh
  \<open>Herd()\<close> or \<open>Pride()\<close>. Python's sort is stable, also with \<open>reverse=True\<close>, as is
  \<open>sort_key\<close>; the slice \<open>[0 : MAX_GROUP + 1]\<close> is \<open>take (MAX_GROUP + 1)\<close>.
\<close>

definition join_groups :: "group list \<Rightarrow> nat \<Rightarrow> group" where
  "join_groups group_list MAX_GROUP =
     (let pop = foldl (\<lambda>x y. x @ population y) [] group_list
      in if length pop > MAX_GROUP
         then new_group\<lparr>population :=
                take (MAX_GROUP + 1) (sort_key (\<lambda>a. - energy a) pop)\<rparr>
         else new_group\<lparr>population := pop\<rparr>)"

text \<open>\<open>Herd.unify(herd_list)\<close>.\<close>

definition Herd_unify :: "group list \<Rightarrow> group" where
  "Herd_unify herd_list = join_groups herd_list MAX_HERD"


section \<open>Movement\<close>

text \<open>Python's \<open>a / b\<close> on numbers raises ZeroDivisionError when \<open>b\<close> is zero.\<close>

definition truediv :: "int \<Rightarrow> real \<Rightarrow> error + real" where
  "truediv a b = (if b = 0 then Inl ZeroDivisionError else Inr (real_of_int a / b))"

text \<open>A list comprehension \<open>[x for x in xs if p(x)]\<close> whose condition may raise: the
  elements are tested in order and the first fault ends the comprehension.\<close>

fun filter_e :: "('a \<Rightarrow> error + bool) \<Rightarrow> 'a list \<Rightarrow> error + 'a list" where
  "filter_e p [] = Inr []"
| "filter_e p (x # xs) =
     (case p x of
        Inl e \<Rightarrow> Inl e
      | Inr b \<Rightarrow>
          (case filter_e p xs of
             Inl e \<Rightarrow> Inl e
           | Inr ys \<Rightarrow> Inr (if b then x # ys else ys)))"

text \<open>The two tests of an animal whose group stays: \<open>energy / social_attitude\<close> is
  evaluated first in both, as Python evaluates \<open>and\<close> and \<open>or\<close> from the left.\<close>

definition ratio_gt_and :: "real \<Rightarrow> animal \<Rightarrow> error + bool" where
  "ratio_gt_and M a =
     (case truediv (energy a) (social_attitude a) of
        Inl e \<Rightarrow> Inl e
      | Inr q \<Rightarrow> Inr (q > M \<and> energy a > 1))"

definition ratio_le_or :: "real \<Rightarrow> animal \<Rightarrow> error + bool" where
  "ratio_le_or M a =
     (case truediv (energy a) (social_attitude a) of
        Inl e \<Rightarrow> Inl e
      | Inr q \<Rightarrow> Inr (q \<le> M \<or> energy a \<le> 1))"

definition ratio_gt_or :: "real \<Rightarrow> animal \<Rightarrow> error + bool" where
  "ratio_gt_or M a =
     (case truediv (energy a) (social_attitude a) of
        Inl e \<Rightarrow> Inl e
      | Inr q \<Rightarrow> Inr (q > M \<or> energy a \<le> 1))"

definition ratio_le_and :: "real \<Rightarrow> animal \<Rightarrow> error + bool" where
  "ratio_le_and M a =
     (case truediv (energy a) (social_attitude a) of
        Inl e \<Rightarrow> Inl e
      | Inr q \<Rightarrow> Inr (q \<le> M \<and> energy a > 1))"

text \<open>The end of both \<open>movement\<close> methods: movers pay one point of energy and are marked,
  stayers are unmarked; the stayers remain in \<open>self\<close> at \<open>cell\<close>, the movers form a fresh
  group at \<open>best_cell\<close>, and empty groups are dropped.\<close>

definition mark_moved :: "animal \<Rightarrow> animal" where
  "mark_moved a = a\<lparr>moved := True, energy := energy a - 1\<rparr>"

definition mark_stayed :: "animal \<Rightarrow> animal" where
  "mark_stayed a = a\<lparr>moved := False\<rparr>"

definition split_group ::
  "group \<Rightarrow> cell \<Rightarrow> cell \<Rightarrow> animal list \<Rightarrow> animal list \<Rightarrow> (group \<times> cell) list" where
  "split_group self cell best_cell move_animals stay_animals =
     filter (\<lambda>gc. length (population (fst gc)) > 0)
       [(self\<lparr>population := map mark_stayed stay_animals\<rparr>, cell),
        (new_group\<lparr>population := map mark_moved move_animals\<rparr>, best_cell)]"

text \<open>\<open>Herd.movement(grid, cell, neighbours)\<close>.\<close>

definition Herd_movement ::
  "grid \<Rightarrow> cell \<Rightarrow> cell list \<Rightarrow> group \<Rightarrow> error + (group \<times> cell) list" where
  "Herd_movement g cell neighbours self =
     (case sort_key (\<lambda>c. - g 0 c) neighbours of
        [] \<Rightarrow> Inr [(self, cell)]
      | best_cell # _ \<Rightarrow>
          (if g 0 cell < int (length (population self)) \<and> g 0 cell < g 0 best_cell
           then Inr (split_group self cell best_cell
                  (filter (\<lambda>a. real_of_int (energy a) * social_attitude a \<ge> MIN_MOVEMENT_E
                                \<and> energy a > 1) (population self))
                  (filter (\<lambda>a. real_of_int (energy a) * social_attitude a < MIN_MOVEMENT_E
                                \<or> energy a \<le> 1) (population self)))
           else (case filter_e (ratio_gt_and MAX_MOVEMENT_E) (population self) of
                   Inl e \<Rightarrow> Inl e
                 | Inr move_erbast \<Rightarrow>
                     (case filter_e (ratio_le_or MAX_MOVEMENT_E) (population self) of
                        Inl e \<Rightarrow> Inl e
                      | Inr stay_erbast \<Rightarrow>
                          Inr (split_group self cell best_cell move_erbast stay_erbast)))))"

text \<open>\<open>Pride.movement(grid, cell, neighbours)\<close>; \<open>r\<close> is the index that
  \<open>random.choice(neighbours)\<close> picks.\<close>

definition Pride_movement ::
  "nat \<Rightarrow> grid \<Rightarrow> cell \<Rightarrow> cell list \<Rightarrow> group \<Rightarrow> error + (group \<times> cell) list" where
  "Pride_movement r g cell neighbours self =
     (case sort_key (\<lambda>c. - g 1 c) neighbours of
        [] \<Rightarrow> Inr [(self, cell)]
      | first_cell # others \<Rightarrow>
          (let best_cell = (if g 1 first_cell = 0
                            then (first_cell # others) ! (r mod length (first_cell # others))
                            else first_cell)
           in if g 1 cell = 0
              then Inr (split_group self cell best_cell
                     (filter (\<lambda>a. real_of_int (energy a) * social_attitude a \<ge> MIN_MOVEMENT_C
                                   \<and> energy a > 1) (population self))
                     (filter (\<lambda>a. real_of_int (energy a) * social_attitude a < MIN_MOVEMENT_C
                                   \<or> energy a \<le> 1) (population self)))
              else (case filter_e (ratio_gt_or MAX_MOVEMENT_C) (population self) of
                      Inl e \<Rightarrow> Inl e
                    | Inr stay_carviz \<Rightarrow>
                        (case filter_e (ratio_le_and MAX_MOVEMENT_C) (population self) of
                           Inl e \<Rightarrow> Inl e
                         | Inr move_carviz \<Rightarrow>
                             Inr (split_group self cell best_cell move_carviz stay_carviz)))))"

section \<open>Unification of prides\<close>

definition win_fight :: "group \<Rightarrow> group" where
  "win_fight p =
     p\<lparr>population :=
         map (\<lambda>c. c\<lparr>social_attitude := min (social_attitude c + WIN_FIGHT) 1\<rparr>) (population p)\<rparr>"

text \<open>The test of \<open>Pride.unify\<close> on the two smallest prides, after their \<open>update_stats\<close>.\<close>

definition prides_join :: "group \<Rightarrow> group \<Rightarrow> bool" where
  "prides_join pride1 pride2 \<longleftrightarrow>
     total_social_attitude (update_stats pride1) + total_social_attitude (update_stats pride2)
       > JOIN_PRIDE
     \<and> length (population pride1) + length (population pride2) < MAX_PRIDE"

text \<open>One round of the loop of \<open>Pride.unify\<close> on the two prides at the head of the sorted
  list; \<open>d1\<close> and \<open>d2\<close> are the two fight values drawn.\<close>

definition unify_step :: "int \<times> int \<Rightarrow> group \<Rightarrow> group \<Rightarrow> error + group" where
  "unify_step d p1 p2 =
     (let pride1 = update_stats p1; pride2 = update_stats p2
      in if prides_join p1 p2
         then Inr (join_groups [pride1, pride2] MAX_PRIDE)
         else (case randint 0 (total_energy pride1) (fst d) of
                 Inl e \<Rightarrow> Inl e
               | Inr pride1_fight_value \<Rightarrow>
                   (case randint 0 (total_energy pride2) (snd d) of
                      Inl e \<Rightarrow> Inl e
                    | Inr pride2_fight_value \<Rightarrow>
                        (if pride1_fight_value \<ge> pride2_fight_value
                         then Inr (win_fight pride1)
                         else Inr (win_fight pride2)))))"

text \<open>\<open>Pride.unify(pride_list)\<close>: the loop runs while more than one pride is left; \<open>fd k\<close>
  are the fight values of round \<open>k\<close>. \<open>pride_list[0]\<close> of an empty list raises.\<close>

function Pride_unify :: "(nat \<Rightarrow> int \<times> int) \<Rightarrow> nat \<Rightarrow> group list \<Rightarrow> error + group" where
  "Pride_unify fd k pride_list =
     (case sort_key (\<lambda>p. length (population p)) pride_list of
        pride1 # pride2 # others \<Rightarrow>
          (case unify_step (fd k) pride1 pride2 of
             Inl e \<Rightarrow> Inl e
           | Inr p \<Rightarrow> Pride_unify fd (Suc k) (p # others))
      | _ \<Rightarrow> (case pride_list of [] \<Rightarrow> Inl IndexError | p # _ \<Rightarrow> Inr p))"
  by pat_completeness auto
termination
proof (relation "measure (\<lambda>(fd, k, pl). length pl)", goal_cases)
  case 1
  show ?case by simp
next
  case (2 fd k pride_list pride1 ps pride2 others p)
  have "length (sort_key (\<lambda>p. length (population p)) pride_list) = length pride_list"
    by simp
  with 2 show ?case by simp
qed


section \<open>Grazing\<close>

definition graze :: "animal \<Rightarrow> animal" where
  "graze a = a\<lparr>energy := energy a + 1\<rparr>"

definition starve :: "animal \<Rightarrow> animal" where
  "starve a = a\<lparr>social_attitude := social_attitude a / HUNGER_E\<rparr>"

text \<open>
  \<open>Herd.grazing(grid, cell)\<close>. In the second branch the Vegetob value \<open>v\<close> is below the
  number of static Erbast: \<open>range(v)\<close> feeds the first \<open>v\<close> of the sorted list and
  \<open>range(v, len(static_erbast))\<close> starves the rest. For a negative \<open>v\<close> the first range is
  empty and the second starts at a negative index, which Python counts from the end of the
  list (and rejects below \<open>-len\<close>).
\<close>

definition Herd_grazing :: "grid \<Rightarrow> cell \<Rightarrow> group \<Rightarrow> error + grid \<times> group" where
  "Herd_grazing g cell self =
     (let moved_erbast = filter moved (population self);
          static_erbast = filter (\<lambda>a. \<not> moved a) (population self);
          v = g 0 cell;
          n = int (length static_erbast)
      in if v \<ge> n
         then Inr (grid_set g 0 cell (v - n),
                   self\<lparr>population := moved_erbast @ map graze static_erbast\<rparr>)
         else (let sorted = sort_key energy static_erbast
               in if 0 \<le> v
                  then Inr (grid_set g 0 cell 0,
                            self\<lparr>population := moved_erbast
                                   @ map graze (take (nat v) sorted)
                                   @ map starve (drop (nat v) sorted)\<rparr>)
                  else if v < - n
                  then Inl IndexError
                  else Inr (grid_set g 0 cell 0,
                            self\<lparr>population := moved_erbast
                                   @ map starve (take (nat (n + v)) sorted)
                                   @ map (starve \<circ> starve) (drop (nat (n + v)) sorted)\<rparr>)))"

section \<open>Hunting\<close>

definition feed :: "int \<Rightarrow> animal \<Rightarrow> animal" where
  "feed amount c =
     c\<lparr>energy := min (energy c + amount) MAX_ENERGY_C,
       social_attitude := social_attitude c + EAT_C\<rparr>"

definition hungry :: "animal \<Rightarrow> animal" where
  "hungry c = c\<lparr>social_attitude := social_attitude c / HUNGER_C\<rparr>"

text \<open>
  \<open>Pride.hunting(grid, cell, hunted_herd)\<close> returns the grid and mutates the pride and the
  herd; the model returns the three. \<open>pop(0)\<close> of an empty list raises IndexError, \<open>//\<close>
  and \<open>%\<close> by an empty pride's size raise ZeroDivisionError; for a positive divisor they
  are \<open>div\<close> and \<open>mod\<close> on \<open>int\<close>.
\<close>

definition Pride_hunting ::
  "grid \<Rightarrow> cell \<Rightarrow> group \<Rightarrow> group option \<Rightarrow> error + grid \<times> group \<times> group option" where
  "Pride_hunting g cell self hunted_herd =
     (case hunted_herd of
        None \<Rightarrow> Inr (g, self\<lparr>population := map hungry (population self)\<rparr>, None)
      | Some herd \<Rightarrow>
          (case sort_key (\<lambda>a. - energy a) (population herd) of
             [] \<Rightarrow> Inl IndexError
           | prey # rest \<Rightarrow>
               (let gained_energy = energy prey;
                    sorted = sort_key energy (population self);
                    n = int (length sorted)
                in if n = 0 then Inl ZeroDivisionError
                   else (let energy_per_carviz = gained_energy div n;
                             spare_energy = gained_energy mod n
                         in Inr (grid_set g 1 cell (g 1 cell - 1),
                                 self\<lparr>population :=
                                        map (feed (energy_per_carviz + 1))
                                          (take (nat spare_energy) sorted)
                                        @ map (feed energy_per_carviz)
                                            (drop (nat spare_energy) sorted)\<rparr>,
                                 Some (herd\<lparr>population := rest\<rparr>))))))"

section \<open>Spawning\<close>

text \<open>The three values drawn for a reproduction: \<open>energy1\<close>, \<open>lifetime1\<close> and
  \<open>social_attitude1\<close> (\<open>random.uniform\<close> does not raise).\<close>

type_synonym spawn_draw = "int \<times> int \<times> real"

text \<open>What the generator can return for the parent \<open>a\<close>.\<close>

definition valid_spawn_draw :: "animal \<Rightarrow> int \<Rightarrow> spawn_draw \<Rightarrow> bool" where
  "valid_spawn_draw a MAX_LIFE d \<longleftrightarrow>
     (case d of (d_energy, d_lifetime, d_attitude) \<Rightarrow>
        1 \<le> d_energy \<and> d_energy \<le> max 1 (energy a - 1)
        \<and> 1 \<le> d_lifetime \<and> d_lifetime \<le> min (2 * lifetime a - 1) MAX_LIFE
        \<and> max 0 (2 * social_attitude a - 1) \<le> d_attitude
        \<and> d_attitude \<le> min (2 * social_attitude a) 1)"

text \<open>The stats of the two offspring of \<open>animal\<close> (lines 191 to 198 of the source), as the
  animals \<open>create_animal\<close> makes of them: the first component has \<open>energy1\<close>.\<close>

definition offspring :: "animal \<Rightarrow> int \<Rightarrow> spawn_draw \<Rightarrow> error + animal \<times> animal" where
  "offspring animal MAX_LIFE d =
     (case d of (d_energy, d_lifetime, d_attitude) \<Rightarrow>
        (case randint 1 (max 1 (energy animal - 1)) d_energy of
           Inl e \<Rightarrow> Inl e
         | Inr energy1 \<Rightarrow>
             (case randint 1 (min (2 * lifetime animal - 1) MAX_LIFE) d_lifetime of
                Inl e \<Rightarrow> Inl e
              | Inr lifetime1 \<Rightarrow>
                  (let energy2 = energy animal - energy1;
                       lifetime2 = 2 * lifetime animal - lifetime1;
                       social_attitude1 = d_attitude;
                       social_attitude2 = 2 * social_attitude animal - social_attitude1
                   in Inr (create_animal energy1 lifetime1 social_attitude1,
                           create_animal energy2 lifetime2 social_attitude2)))))"

text \<open>The first lines of the loop body: one day older, and every tenth day less energy.\<close>

definition grow_older :: "int \<Rightarrow> animal \<Rightarrow> animal" where
  "grow_older AGING animal =
     (let a = animal\<lparr>age := age animal + 1\<rparr>
      in if age a mod 10 = 0 then a\<lparr>energy := energy a - AGING\<rparr> else a)"

text \<open>The loop of \<open>Group.spawning\<close> over \<open>self.population\<close>; \<open>draws i\<close> are the values
  drawn for the animal at position \<open>i\<close>, \<open>Ls\<close> is the list being built.\<close>

fun spawning_loop ::
  "nat \<Rightarrow> cell \<Rightarrow> int \<Rightarrow> int \<Rightarrow> int \<Rightarrow> nat \<Rightarrow> (nat \<Rightarrow> spawn_draw) \<Rightarrow> nat \<Rightarrow> animal list
     \<Rightarrow> grid \<Rightarrow> animal list \<Rightarrow> error + grid \<times> animal list" where
  "spawning_loop idx cell AGING MIN_LIFE MAX_LIFE MAX_GROUP draws i [] g Ls = Inr (g, Ls)"
| "spawning_loop idx cell AGING MIN_LIFE MAX_LIFE MAX_GROUP draws i (x # xs) g Ls =
     (let animal = grow_older AGING x
      in if energy animal = 0 \<or> lifetime animal < MIN_LIFE
         then spawning_loop idx cell AGING MIN_LIFE MAX_LIFE MAX_GROUP draws (Suc i) xs
                (grid_set g idx cell (g idx cell - 1)) Ls
         else if age animal = lifetime animal
         then (case offspring animal MAX_LIFE (draws i) of
                 Inl e \<Rightarrow> Inl e
               | Inr (o1, o2) \<Rightarrow>
                   (let strong = (if energy o1 \<ge> energy o2 then o1 else o2);
                        weak = (if energy o1 \<ge> energy o2 then o2 else o1)
                    in if g idx cell < int MAX_GROUP
                       then spawning_loop idx cell AGING MIN_LIFE MAX_LIFE MAX_GROUP draws
                              (Suc i) xs (grid_set g idx cell (g idx cell + 1))
                              (Ls @ [strong, weak])
                       else spawning_loop idx cell AGING MIN_LIFE MAX_LIFE MAX_GROUP draws
                              (Suc i) xs g (Ls @ [strong])))
         else spawning_loop idx cell AGING MIN_LIFE MAX_LIFE MAX_GROUP draws (Suc i) xs g
                (Ls @ [animal]))"

definition Group_spawning ::
  "nat \<Rightarrow> int \<Rightarrow> int \<Rightarrow> int \<Rightarrow> nat \<Rightarrow> (nat \<Rightarrow> spawn_draw) \<Rightarrow> grid \<Rightarrow> cell \<Rightarrow> group
     \<Rightarrow> error + grid \<times> group" where
  "Group_spawning idx AGING MIN_LIFE MAX_LIFE MAX_GROUP draws g cell self =
     (case spawning_loop idx cell AGING MIN_LIFE MAX_LIFE MAX_GROUP draws 0 (population self)
             g [] of
        Inl e \<Rightarrow> Inl e
      | Inr (g', Ls) \<Rightarrow> Inr (g', self\<lparr>population := Ls\<rparr>))"

text \<open>\<open>Herd.spawning\<close> and \<open>Pride.spawning\<close>; the source passes \<open>idx_specie=1\<close> in both.\<close>

definition Herd_spawning ::
  "(nat \<Rightarrow> spawn_draw) \<Rightarrow> grid \<Rightarrow> cell \<Rightarrow> group \<Rightarrow> error + grid \<times> group" where
  "Herd_spawning = Group_spawning 1 AGING_E MIN_LIFE_E MAX_LIFE_E MAX_HERD"

definition Pride_spawning ::
  "(nat \<Rightarrow> spawn_draw) \<Rightarrow> grid \<Rightarrow> cell \<Rightarrow> group \<Rightarrow> error + grid \<times> group" where
  "Pride_spawning = Group_spawning 1 AGING_C MIN_LIFE_C MAX_LIFE_C MAX_PRIDE"

section \<open>Initial groups\<close>

text \<open>The loop of \<open>Group.world_init\<close>: \<open>draws i\<close> are the energy, the lifetime and the
  social attitude drawn for animal \<open>i\<close>; \<open>random.random()\<close> returns a value in \<open>[0, 1)\<close>.\<close>

fun init_animals :: "int \<Rightarrow> int \<Rightarrow> (nat \<Rightarrow> spawn_draw) \<Rightarrow> nat \<Rightarrow> nat \<Rightarrow> error + animal list" where
  "init_animals MAX_ENERGY MAX_LIFE draws i 0 = Inr []"
| "init_animals MAX_ENERGY MAX_LIFE draws i (Suc n) =
     (case draws i of (d_energy, d_lifetime, d_attitude) \<Rightarrow>
        (case randint 0 MAX_ENERGY d_energy of
           Inl e \<Rightarrow> Inl e
         | Inr energy0 \<Rightarrow>
             (case randint 1 MAX_LIFE d_lifetime of
                Inl e \<Rightarrow> Inl e
              | Inr lifetime0 \<Rightarrow>
                  (case init_animals MAX_ENERGY MAX_LIFE draws (Suc i) n of
                     Inl e \<Rightarrow> Inl e
                   | Inr rest \<Rightarrow> Inr (create_animal energy0 lifetime0 d_attitude # rest)))))"

definition valid_init_draw :: "int \<Rightarrow> int \<Rightarrow> spawn_draw \<Rightarrow> bool" where
  "valid_init_draw MAX_ENERGY MAX_LIFE d \<longleftrightarrow>
     (case d of (d_energy, d_lifetime, d_attitude) \<Rightarrow>
        0 \<le> d_energy \<and> d_energy \<le> MAX_ENERGY \<and> 1 \<le> d_lifetime \<and> d_lifetime \<le> MAX_LIFE
        \<and> 0 \<le> d_attitude \<and> d_attitude < 1)"

text \<open>\<open>Group.world_init\<close>; \<open>d_num\<close> is the number of animals drawn.\<close>

definition world_init ::
  "grid \<Rightarrow> cell \<Rightarrow> nat \<Rightarrow> int \<Rightarrow> int \<Rightarrow> int \<Rightarrow> int \<Rightarrow> int \<Rightarrow> (nat \<Rightarrow> spawn_draw) \<Rightarrow> group
     \<Rightarrow> error + grid \<times> group" where
  "world_init g cell idx_specie NUM_ANIMALS_LB NUM_ANIMALS_UB MAX_ENERGY MAX_LIFE d_num draws
       self =
     (case randint NUM_ANIMALS_LB NUM_ANIMALS_UB d_num of
        Inl e \<Rightarrow> Inl e
      | Inr num_animals \<Rightarrow>
          (case init_animals MAX_ENERGY MAX_LIFE draws 0 (nat num_animals) of
             Inl e \<Rightarrow> Inl e
           | Inr animals \<Rightarrow>
               Inr (grid_set g idx_specie cell (g idx_specie cell + num_animals),
                    self\<lparr>population := population self @ animals\<rparr>)))"

definition Herd_world_init ::
  "grid \<Rightarrow> cell \<Rightarrow> int \<Rightarrow> (nat \<Rightarrow> spawn_draw) \<Rightarrow> group \<Rightarrow> error + grid \<times> group" where
  "Herd_world_init g cell =
     world_init g cell 1 NUM_ERBAST_LB NUM_ERBAST_UB MAX_ENERGY_E MAX_LIFE_E"

definition Pride_world_init ::
  "grid \<Rightarrow> cell \<Rightarrow> int \<Rightarrow> (nat \<Rightarrow> spawn_draw) \<Rightarrow> group \<Rightarrow> error + grid \<times> group" where
  "Pride_world_init g cell =
     world_init g cell 2 NUM_CARVIZ_LB NUM_CARVIZ_UB MAX_ENERGY_C MAX_LIFE_C"


section \<open>World\<close>

text \<open>
  A Python dictionary keeps its keys in insertion order and holds each key once: an
  association list, with \<open>map_of\<close> for \<open>get\<close> and \<open>dict_set\<close> for \<open>d[k] = v\<close>, which
  overwrites in place or appends.
\<close>

fun dict_set :: "'k \<Rightarrow> 'v \<Rightarrow> ('k \<times> 'v) list \<Rightarrow> ('k \<times> 'v) list" where
  "dict_set k v [] = [(k, v)]"
| "dict_set k v (kv # kvs) = (if fst kv = k then (k, v) # kvs else kv # dict_set k v kvs)"

text \<open>Class \<open>World\<close>, without the series kept for the charts.\<close>

record world =
  NR :: int
  NC :: int
  grid :: grid
  day :: int
  ground_cells :: "cell list"
  herds :: "(cell \<times> group) list"
  prides :: "(cell \<times> group) list"

text \<open>The values drawn during one day: the index \<open>random.choice\<close> picks for the pride of a
  cell, the fight values of each round of the unification in a cell, and the reproduction
  draws for each position of the herd and of the pride of a cell.\<close>

record day_draws =
  choice_draw :: "cell \<Rightarrow> nat"
  fight_draw :: "cell \<Rightarrow> nat \<Rightarrow> int \<times> int"
  herd_spawn_draw :: "cell \<Rightarrow> nat \<Rightarrow> spawn_draw"
  pride_spawn_draw :: "cell \<Rightarrow> nat \<Rightarrow> spawn_draw"

definition growing :: "world \<Rightarrow> world" where
  "growing w =
     w\<lparr>grid := fold (\<lambda>c g. grid_set g 0 c (min (g 0 c + GROWING) 100)) (ground_cells w)
                 (grid w)\<rparr>"

definition neighbourhood :: "world \<Rightarrow> int \<Rightarrow> int \<Rightarrow> int \<Rightarrow> cell list" where
  "neighbourhood w cell_row cell_col radius =
     concat (map (\<lambda>i.
         filter (\<lambda>c. c \<in> set (ground_cells w) \<and> c \<noteq> (cell_row, cell_col))
           (map (\<lambda>j. (i, j))
              [max 0 (cell_col - radius) .. min (cell_col + radius + 1) (NC w) - 1]))
       [max 0 (cell_row - radius) .. min (cell_row + radius + 1) (NR w) - 1])"

definition overwhelmed :: "world \<Rightarrow> cell \<Rightarrow> bool" where
  "overwhelmed w c \<longleftrightarrow>
     foldl (\<lambda>x y. x + grid w 0 y) 0 (neighbourhood w (fst c) (snd c) 1) = 800"

definition overwhelming :: "world \<Rightarrow> world" where
  "overwhelming w =
     (let remove_herds = filter (overwhelmed w) (map fst (herds w));
          remove_prides = filter (overwhelmed w) (map fst (prides w))
      in w\<lparr>grid := fold (\<lambda>c g. grid_set g 2 c 0) remove_prides
                     (fold (\<lambda>c g. grid_set g 1 c 0) remove_herds (grid w)),
            herds := filter (\<lambda>kv. fst kv \<notin> set remove_herds) (herds w),
            prides := filter (\<lambda>kv. fst kv \<notin> set remove_prides) (prides w)\<rparr>)"

text \<open>\<open>res[new_cell] = res.get(new_cell, list()) + [group]\<close> for each group that a
  \<open>movement\<close> method returned.\<close>

definition place ::
  "(group \<times> cell) list \<Rightarrow> (cell \<times> group list) list \<Rightarrow> (cell \<times> group list) list" where
  "place after res =
     fold (\<lambda>gc r. dict_set (snd gc)
                    ((case map_of r (snd gc) of None \<Rightarrow> [] | Some l \<Rightarrow> l) @ [fst gc]) r)
       after res"

fun move_herds ::
  "world \<Rightarrow> (cell \<times> group) list \<Rightarrow> (cell \<times> group list) list
     \<Rightarrow> error + (cell \<times> group list) list" where
  "move_herds w [] res_herds = Inr res_herds"
| "move_herds w (ch # rest) res_herds =
     (case Herd_movement (grid w) (fst ch)
             (neighbourhood w (fst (fst ch)) (snd (fst ch)) NEIGHBORHOOD_E) (snd ch) of
        Inl e \<Rightarrow> Inl e
      | Inr after_movement_herds \<Rightarrow> move_herds w rest (place after_movement_herds res_herds))"

fun move_prides ::
  "(cell \<Rightarrow> nat) \<Rightarrow> world \<Rightarrow> (cell \<times> group) list \<Rightarrow> (cell \<times> group list) list
     \<Rightarrow> error + (cell \<times> group list) list" where
  "move_prides r w [] res_prides = Inr res_prides"
| "move_prides r w (cp # rest) res_prides =
     (case Pride_movement (r (fst cp)) (grid w) (fst cp)
             (neighbourhood w (fst (fst cp)) (snd (fst cp)) NEIGHBORHOOD_C) (snd cp) of
        Inl e \<Rightarrow> Inl e
      | Inr after_movement_prides \<Rightarrow>
          move_prides r w rest (place after_movement_prides res_prides))"

text \<open>\<open>World.movement\<close> leaves lists of groups in \<open>self.herds\<close> and \<open>self.prides\<close>; the
  model returns the two dictionaries of lists.\<close>

definition movement ::
  "(cell \<Rightarrow> nat) \<Rightarrow> world
     \<Rightarrow> error + (cell \<times> group list) list \<times> (cell \<times> group list) list" where
  "movement r w =
     (case move_herds w (herds w) [] of
        Inl e \<Rightarrow> Inl e
      | Inr res_herds \<Rightarrow>
          (case move_prides r w (prides w) [] of
             Inl e \<Rightarrow> Inl e
           | Inr res_prides \<Rightarrow> Inr (res_herds, res_prides)))"

fun unify_herds :: "(cell \<times> group list) list \<Rightarrow> error + (cell \<times> group) list" where
  "unify_herds [] = Inr []"
| "unify_herds (cl # rest) =
     (case snd cl of
        [] \<Rightarrow> Inl IndexError
      | _ # _ \<Rightarrow>
          (case unify_herds rest of
             Inl e \<Rightarrow> Inl e
           | Inr res \<Rightarrow> Inr ((fst cl, Herd_unify (snd cl)) # res)))"

fun unify_prides ::
  "(cell \<Rightarrow> nat \<Rightarrow> int \<times> int) \<Rightarrow> (cell \<times> group list) list \<Rightarrow> error + (cell \<times> group) list" where
  "unify_prides fd [] = Inr []"
| "unify_prides fd (cl # rest) =
     (case Pride_unify (fd (fst cl)) 0 (snd cl) of
        Inl e \<Rightarrow> Inl e
      | Inr p \<Rightarrow>
          (case unify_prides fd rest of
             Inl e \<Rightarrow> Inl e
           | Inr res \<Rightarrow> Inr ((fst cl, p) # res)))"

text \<open>\<open>World.update_grid\<close>: a layer of zeros to which every group adds its size.\<close>

definition accumulate_animals :: "(cell \<times> group) list \<Rightarrow> cell \<Rightarrow> int" where
  "accumulate_animals items =
     fold (\<lambda>cg layer. layer(fst cg := layer (fst cg) + int (length (population (snd cg)))))
       items (\<lambda>c. 0)"

definition unify_groups ::
  "(cell \<Rightarrow> nat \<Rightarrow> int \<times> int) \<Rightarrow> world
     \<Rightarrow> (cell \<times> group list) list \<times> (cell \<times> group list) list \<Rightarrow> error + world" where
  "unify_groups fd w moved_groups =
     (case unify_herds (fst moved_groups) of
        Inl e \<Rightarrow> Inl e
      | Inr hs \<Rightarrow>
          (case unify_prides fd (snd moved_groups) of
             Inl e \<Rightarrow> Inl e
           | Inr ps \<Rightarrow>
               Inr (w\<lparr>herds := hs, prides := ps,
                      grid := (grid w)(1 := accumulate_animals hs,
                                       2 := accumulate_animals ps)\<rparr>)))"

fun graze_herds :: "grid \<Rightarrow> (cell \<times> group) list \<Rightarrow> error + grid \<times> (cell \<times> group) list" where
  "graze_herds g [] = Inr (g, [])"
| "graze_herds g (ch # rest) =
     (case Herd_grazing g (fst ch) (snd ch) of
        Inl e \<Rightarrow> Inl e
      | Inr (g', herd) \<Rightarrow>
          (case graze_herds g' rest of
             Inl e \<Rightarrow> Inl e
           | Inr (g'', res) \<Rightarrow> Inr (g'', (fst ch, herd) # res)))"

definition grazing :: "world \<Rightarrow> error + world" where
  "grazing w =
     (case graze_herds (grid w) (herds w) of
        Inl e \<Rightarrow> Inl e
      | Inr (g, hs) \<Rightarrow> Inr (w\<lparr>grid := g, herds := hs\<rparr>))"

text \<open>\<open>World.hunting\<close>: each pride hunts the herd its cell holds at that moment; the herd
  object is changed inside \<open>self.herds\<close>.\<close>

fun hunt_prides ::
  "grid \<Rightarrow> (cell \<times> group) list \<Rightarrow> (cell \<times> group) list
     \<Rightarrow> error + grid \<times> (cell \<times> group) list \<times> (cell \<times> group) list" where
  "hunt_prides g hs [] = Inr (g, hs, [])"
| "hunt_prides g hs (cp # rest) =
     (case Pride_hunting g (fst cp) (snd cp) (map_of hs (fst cp)) of
        Inl e \<Rightarrow> Inl e
      | Inr (g', pride, hunted) \<Rightarrow>
          (case hunt_prides g'
                  (case hunted of None \<Rightarrow> hs | Some herd \<Rightarrow> dict_set (fst cp) herd hs) rest of
             Inl e \<Rightarrow> Inl e
           | Inr (g'', hs', res) \<Rightarrow> Inr (g'', hs', (fst cp, pride) # res)))"

definition hunting :: "world \<Rightarrow> error + world" where
  "hunting w =
     (case hunt_prides (grid w) (herds w) (prides w) of
        Inl e \<Rightarrow> Inl e
      | Inr (g, hs, ps) \<Rightarrow> Inr (w\<lparr>grid := g, herds := hs, prides := ps\<rparr>))"

fun spawn_groups ::
  "((nat \<Rightarrow> spawn_draw) \<Rightarrow> grid \<Rightarrow> cell \<Rightarrow> group \<Rightarrow> error + grid \<times> group)
     \<Rightarrow> (cell \<Rightarrow> nat \<Rightarrow> spawn_draw) \<Rightarrow> grid \<Rightarrow> (cell \<times> group) list
     \<Rightarrow> error + grid \<times> (cell \<times> group) list" where
  "spawn_groups method draws g [] = Inr (g, [])"
| "spawn_groups method draws g (cg # rest) =
     (case method (draws (fst cg)) g (fst cg) (snd cg) of
        Inl e \<Rightarrow> Inl e
      | Inr (g', grp) \<Rightarrow>
          (case spawn_groups method draws g' rest of
             Inl e \<Rightarrow> Inl e
           | Inr (g'', res) \<Rightarrow> Inr (g'', (fst cg, grp) # res)))"

definition spawning :: "day_draws \<Rightarrow> world \<Rightarrow> error + world" where
  "spawning dr w =
     (case spawn_groups Herd_spawning (herd_spawn_draw dr) (grid w) (herds w) of
        Inl e \<Rightarrow> Inl e
      | Inr (g, hs) \<Rightarrow>
          (case spawn_groups Pride_spawning (pride_spawn_draw dr) g (prides w) of
             Inl e \<Rightarrow> Inl e
           | Inr (g', ps) \<Rightarrow> Inr (w\<lparr>grid := g', herds := hs, prides := ps\<rparr>)))"

definition remove_empty_groups :: "world \<Rightarrow> world" where
  "remove_empty_groups w =
     w\<lparr>herds := filter (\<lambda>kv. length (population (snd kv)) \<noteq> 0) (herds w),
       prides := filter (\<lambda>kv. length (population (snd kv)) \<noteq> 0) (prides w)\<rparr>"

text \<open>\<open>World.update_stats\<close>: the stats of every group, then the two count layers, each a
  layer of zeros in which every group writes its size.\<close>

definition size_layer :: "(cell \<times> group) list \<Rightarrow> cell \<Rightarrow> int" where
  "size_layer items =
     fold (\<lambda>cg layer. layer(fst cg := int (length (population (snd cg))))) items (\<lambda>c. 0)"

definition World_update_stats :: "world \<Rightarrow> world" where
  "World_update_stats w =
     (let hs = map (\<lambda>kv. (fst kv, update_stats (snd kv))) (herds w);
          ps = map (\<lambda>kv. (fst kv, update_stats (snd kv))) (prides w)
      in w\<lparr>herds := hs, prides := ps,
            grid := (grid w)(1 := size_layer hs, 2 := size_layer ps)\<rparr>)"

text \<open>\<open>World.a_day_on_planysuss\<close>: the nine phases in order, then the day counter. A fault
  in a phase ends the day.\<close>

definition a_day_on_planysuss :: "day_draws \<Rightarrow> world \<Rightarrow> error + world" where
  "a_day_on_planysuss dr w =
     (let w1 = overwhelming (growing w)
      in case movement (choice_draw dr) w1 of
           Inl e \<Rightarrow> Inl e
         | Inr moved_groups \<Rightarrow>
             (case unify_groups (fight_draw dr) w1 moved_groups of
                Inl e \<Rightarrow> Inl e
              | Inr w2 \<Rightarrow>
                  (case grazing w2 of
                     Inl e \<Rightarrow> Inl e
                   | Inr w3 \<Rightarrow>
                       (case hunting w3 of
                          Inl e \<Rightarrow> Inl e
                        | Inr w4 \<Rightarrow>
                            (case spawning dr w4 of
                               Inl e \<Rightarrow> Inl e
                             | Inr w5 \<Rightarrow>
                                 (let w6 = World_update_stats (remove_empty_groups w5)
                                  in Inr (w6\<lparr>day := day w6 + 1\<rparr>)))))))"


section \<open>Merging groups\<close>

lemma length_join_groups:
  "length (population (join_groups group_list MAX_GROUP)) =
     min (length (foldl (\<lambda>x y. x @ population y) [] group_list)) (MAX_GROUP + 1)"
  by (simp add: join_groups_def Let_def new_group_def)

text \<open>Two prides that join stay below the cap: \<open>Pride.unify\<close> joins only when the
  combined size is below \<open>MAX_PRIDE\<close>, so the slice of \<open>join_groups\<close> never applies.\<close>

lemma joined_prides_below_cap:
  assumes "prides_join pride1 pride2"
  shows "length (population (join_groups [update_stats pride1, update_stats pride2] MAX_PRIDE))
           < MAX_PRIDE"
  using assms by (simp add: prides_join_def length_join_groups update_stats_def)

text \<open>
  C1. After a merge the size of the group is meant to be at most the cap of the species.
  \<open>join_groups\<close> keeps the slice \<open>[0 : MAX_GROUP + 1]\<close> of the sorted population, one animal
  more than the cap: two herds of 200 and 101 Erbast are pooled into a herd of 301, above
  \<open>MAX_HERD = 300\<close>; nobody is pruned.
\<close>

theorem herd_unify_exceeds_cap:
  "length (population (Herd_unify
      [new_group\<lparr>population := replicate 200 (create_animal 50 100 0.5)\<rparr>,
       new_group\<lparr>population := replicate 101 (create_animal 50 100 0.5)\<rparr>])) = 301
   \<and> MAX_HERD = 300"
  by (simp add: Herd_unify_def join_groups_def Let_def new_group_def MAX_HERD_def)

section \<open>Reproduction\<close>

text \<open>In the loop of \<open>spawning\<close>, an animal that is alive after ageing and has reached its
  lifetime is replaced by the offspring that \<open>offspring\<close> computes from it: both when the
  cell has room, the one with more energy otherwise.\<close>

lemma spawning_loop_reproduces:
  assumes "energy (grow_older AGING x) \<noteq> 0"
    and "\<not> lifetime (grow_older AGING x) < MIN_LIFE"
    and "age (grow_older AGING x) = lifetime (grow_older AGING x)"
    and "offspring (grow_older AGING x) MAX_LIFE (draws i) = Inr (o1, o2)"
  shows "spawning_loop idx cell AGING MIN_LIFE MAX_LIFE MAX_GROUP draws i [x] g Ls =
           (if g idx cell < int MAX_GROUP
            then Inr (grid_set g idx cell (g idx cell + 1),
                      Ls @ (if energy o1 \<ge> energy o2 then [o1, o2] else [o2, o1]))
            else Inr (g, Ls @ [if energy o1 \<ge> energy o2 then o1 else o2]))"
  using assms by (simp add: Let_def)

text \<open>
  C3. For a parent that reproduces, the two offspring drawn share the parent's energy
  exactly, \<open>e1 + e2 = energy\<close>, and their lifetimes add up to twice the parent's,
  \<open>l1 + l2 = 2 * lifetime\<close>, whatever values the generator returns. The parent is the
  animal as the loop of \<open>spawning\<close> holds it at that moment, after the day's ageing.
\<close>

theorem offspring_conservation:
  assumes "offspring animal MAX_LIFE d = Inr (o1, o2)"
  shows "energy o1 + energy o2 = energy animal
         \<and> lifetime o1 + lifetime o2 = 2 * lifetime animal"
  using assms
  by (auto simp: offspring_def randint_def create_animal_def Let_def
           split: prod.splits sum.splits if_splits)

theorem offspring_conservation_witness:
  "offspring (create_animal 49 20 0.5\<lparr>age := 20\<rparr>) MAX_LIFE_E (10, 7, 0.3)
     = Inr (create_animal 10 7 0.3, create_animal 39 33 0.7)
   \<and> energy (create_animal 10 7 0.3) + energy (create_animal 39 33 0.7)
       = energy (create_animal 49 20 0.5\<lparr>age := 20\<rparr>)
   \<and> lifetime (create_animal 10 7 0.3) + lifetime (create_animal 39 33 0.7)
       = 2 * lifetime (create_animal 49 20 0.5\<lparr>age := 20\<rparr>)"
proof -
  have run: "offspring (create_animal 49 20 0.5\<lparr>age := 20\<rparr>) MAX_LIFE_E (10, 7, 0.3)
               = Inr (create_animal 10 7 0.3, create_animal 39 33 0.7)"
    by (simp add: offspring_def randint_def create_animal_def Let_def MAX_LIFE_E_def)
  from offspring_conservation [OF run] run show ?thesis by simp
qed

text \<open>
  C8. Every offspring is meant to have a lifetime of at most the maximum of the species.
  Only the first draw is bounded by \<open>MAX_LIFE\<close>; the second lifetime is the remainder
  \<open>2 * lifetime - lifetime1\<close>. An Erbast of lifetime 1000 that reaches the age of 1000,
  with the draws 25, 1 and 0.5 (all in the ranges of the generator), leaves an offspring
  of lifetime 1999 in the herd, above \<open>MAX_LIFE_E = 1000\<close>.
\<close>

theorem spawning_lifetime_exceeds_max:
  "valid_spawn_draw (grow_older AGING_E (create_animal 50 1000 0.5\<lparr>age := 999\<rparr>)) MAX_LIFE_E
     (25, 1, 0.5)
   \<and> map lifetime (population (snd (projr
        (Herd_spawning (\<lambda>i. (25, 1, 0.5)) (\<lambda>k c. if k = 1 then 1 else 50) (1, 1)
           (new_group\<lparr>population := [create_animal 50 1000 0.5\<lparr>age := 999\<rparr>]\<rparr>)))))
       = [1, 1999]
   \<and> MAX_LIFE_E = 1000"
  by (simp add: valid_spawn_draw_def Herd_spawning_def Group_spawning_def grow_older_def
        offspring_def create_animal_def MAX_LIFE_E_def randint_def Let_def AGING_E_def
        MIN_LIFE_E_def MAX_HERD_def new_group_def grid_set_def)

section \<open>Energy and social attitude\<close>

text \<open>
  C4. Every animal is meant to keep \<open>0 \<le> energy \<le> MAX_ENERGY\<close> and
  \<open>0 \<le> social_attitude \<le> 1\<close> at the end of every phase. \<open>Herd.grazing\<close> adds one point
  of energy with no cap: an Erbast of energy 100 that grazes ends the phase with 101, above
  \<open>MAX_ENERGY_E = 100\<close>. \<open>Pride.hunting\<close> adds \<open>EAT_C\<close> to the social attitude with no
  clamp: a Carviz of social attitude 0.98 ends the hunt with 1.03.
\<close>

theorem grazing_hunting_leave_range:
  "map energy (population (snd (projr
      (Herd_grazing (\<lambda>k c. if k = 0 then 5 else 1) (1, 1)
         (new_group\<lparr>population := [create_animal 100 500 0.5]\<rparr>))))) = [101]
   \<and> MAX_ENERGY_E = 100
   \<and> map social_attitude (population (fst (snd (projr
        (Pride_hunting (\<lambda>k c. if k = 0 then 5 else 1) (1, 1)
           (new_group\<lparr>population := [create_animal 40 500 0.98]\<rparr>)
           (Some (new_group\<lparr>population := [create_animal 60 500 0.5]\<rparr>))))))) = [1.03]"
  by (simp add: Herd_grazing_def Pride_hunting_def Let_def new_group_def create_animal_def
        graze_def feed_def grid_set_def MAX_ENERGY_E_def MAX_ENERGY_C_def EAT_C_def)

section \<open>Joining or fighting\<close>

text \<open>
  C5. Two prides are meant to join exactly when the sum of their average social attitudes
  exceeds \<open>JOIN_PRIDE\<close> and their combined size is below \<open>MAX_PRIDE\<close>. The code compares
  the sum of the two totals with \<open>JOIN_PRIDE\<close>: two prides of three Carviz of social
  attitude 0.2 have averages that sum to \<open>0.4 \<le> 0.9\<close> and totals that sum to
  \<open>1.2 > 0.9\<close>, and \<open>Pride.unify\<close> joins them into one pride of six without a fight.
\<close>

theorem prides_join_on_totals:
  "total_social_attitude (update_stats
       (new_group\<lparr>population := replicate 3 (create_animal 40 500 0.2)\<rparr>)) / 3
     + total_social_attitude (update_stats
         (new_group\<lparr>population := replicate 3 (create_animal 40 500 0.2)\<rparr>)) / 3
     \<le> JOIN_PRIDE
   \<and> Pride_unify fd 0
       [new_group\<lparr>population := replicate 3 (create_animal 40 500 0.2)\<rparr>,
        new_group\<lparr>population := replicate 3 (create_animal 40 500 0.2)\<rparr>]
     = Inr (new_group\<lparr>population := replicate 6 (create_animal 40 500 0.2)\<rparr>)"
  by (simp add: unify_step_def prides_join_def update_stats_def new_group_def
        create_animal_def JOIN_PRIDE_def MAX_PRIDE_def join_groups_def eval_nat_numeral)

section \<open>Movement of a group that stays\<close>

text \<open>
  C7. In a group that stays, exactly the animals with \<open>energy > 1\<close> and
  \<open>energy / social_attitude > MAX_MOVEMENT\<close> are meant to move. \<open>Herd.movement\<close> does so;
  \<open>Pride.movement\<close> has the comparison the other way round. In a pride that stays (its
  cell holds Erbast), the Carviz of energy 50 and social attitude 0.5 (ratio \<open>100 \<le> 300\<close>)
  moves and pays one point of energy, and the Carviz of energy 50 and social attitude 0.1
  (ratio \<open>500 > 300\<close>) stays. The same two animals in a herd that stays do the opposite.
\<close>

theorem pride_stay_branch_inverted:
  "Pride_movement r (\<lambda>k c. if k = 1 then 5 else 50) (1, 1) [(1, 2)]
     (new_group\<lparr>population := [create_animal 50 500 0.5, create_animal 50 500 0.1]\<rparr>)
   = Inr [(new_group\<lparr>population := [create_animal 50 500 0.1]\<rparr>, (1, 1)),
          (new_group\<lparr>population := [create_animal 49 500 0.5\<lparr>moved := True\<rparr>]\<rparr>, (1, 2))]
   \<and> Herd_movement (\<lambda>k c. if k = 1 then 5 else 50) (1, 1) [(1, 2)]
     (new_group\<lparr>population := [create_animal 50 500 0.5, create_animal 50 500 0.1]\<rparr>)
   = Inr [(new_group\<lparr>population := [create_animal 50 500 0.5]\<rparr>, (1, 1)),
          (new_group\<lparr>population := [create_animal 49 500 0.1\<lparr>moved := True\<rparr>]\<rparr>, (1, 2))]"
  by (simp add: Pride_movement_def Herd_movement_def ratio_gt_or_def ratio_le_and_def
        ratio_gt_and_def ratio_le_or_def truediv_def split_group_def mark_moved_def
        mark_stayed_def MAX_MOVEMENT_C_def MAX_MOVEMENT_E_def create_animal_def new_group_def)


section \<open>Energy paid for moving\<close>

lemma filter_e_Inr:
  "filter_e p xs = Inr ys \<Longrightarrow>
     ys = filter (\<lambda>a. p a = Inr True) xs \<and> (\<forall>a\<in>set xs. \<exists>b. p a = Inr b)"
proof (induction xs arbitrary: ys)
  case Nil
  then show ?case by simp
next
  case (Cons x xs)
  then show ?case by (auto split: sum.splits if_splits)
qed

lemma ratio_tests:
  "ratio_gt_and M a = Inr b \<Longrightarrow> ratio_le_or M a = Inr (\<not> b)"
  "ratio_le_and M a = Inr b \<Longrightarrow> ratio_gt_or M a = Inr (\<not> b)"
  "ratio_gt_and M a = Inr True \<Longrightarrow> 1 < energy a"
  "ratio_le_and M a = Inr True \<Longrightarrow> 1 < energy a"
  by (auto simp: ratio_gt_and_def ratio_le_or_def ratio_gt_or_def ratio_le_and_def truediv_def
      split: if_splits)

text \<open>Two comprehensions over the same list with complementary tests: the second list
  holds exactly the elements that the first leaves out.\<close>

lemma complementary_filters:
  assumes "filter_e p xs = Inr move" and "filter_e q xs = Inr stay"
    and "\<And>a b. p a = Inr b \<Longrightarrow> q a = Inr (\<not> b)"
  shows "move = filter (\<lambda>a. p a = Inr True) xs
         \<and> stay = filter (\<lambda>a. \<not> p a = Inr True) xs"
proof -
  from filter_e_Inr [OF assms(1)] have m: "move = filter (\<lambda>a. p a = Inr True) xs"
    and ok: "\<forall>a\<in>set xs. \<exists>b. p a = Inr b" by simp_all
  from filter_e_Inr [OF assms(2)] have s: "stay = filter (\<lambda>a. q a = Inr True) xs" by simp
  have "filter (\<lambda>a. q a = Inr True) xs = filter (\<lambda>a. \<not> p a = Inr True) xs"
  proof (rule filter_cong [OF refl])
    fix a assume "a \<in> set xs"
    with ok obtain b where b: "p a = Inr b" by blast
    from assms(3) [OF b] b show "(q a = Inr True) = (\<not> p a = Inr True)" by auto
  qed
  with m s show ?thesis by simp
qed

lemma follow_filters:
  "filter (\<lambda>a. real_of_int (energy a) * social_attitude a < M \<or> energy a \<le> 1) xs
     = filter (\<lambda>a::animal. \<not> (real_of_int (energy a) * social_attitude a \<ge> M \<and> energy a > 1)) xs"
  by (rule filter_cong) auto

lemma split_group_unfold:
  "split_group self cell best_cell move stay =
     filter (\<lambda>gc. length (population (fst gc)) > 0)
       [(self\<lparr>population := map (\<lambda>a. a\<lparr>moved := False\<rparr>) stay\<rparr>, cell),
        (new_group\<lparr>population := map (\<lambda>a. a\<lparr>moved := True, energy := energy a - 1\<rparr>) move\<rparr>,
         best_cell)]"
proof -
  have "map mark_stayed stay = map (\<lambda>a. a\<lparr>moved := False\<rparr>) stay"
    and "map mark_moved move = map (\<lambda>a. a\<lparr>moved := True, energy := energy a - 1\<rparr>) move"
    by (simp_all add: mark_stayed_def mark_moved_def)
  then show ?thesis by (simp only: split_group_def)
qed

lemma Herd_movement_outcome:
  assumes "Herd_movement g cell neighbours self = Inr res"
  shows "(neighbours = [] \<and> res = [(self, cell)])
         \<or> (\<exists>P best_cell.
               best_cell \<in> set neighbours
               \<and> (\<forall>a\<in>set (population self). P a \<longrightarrow> 1 < energy a)
               \<and> res = filter (\<lambda>gc. length (population (fst gc)) > 0)
                    [(self\<lparr>population := map (\<lambda>a. a\<lparr>moved := False\<rparr>)
                                           (filter (\<lambda>a. \<not> P a) (population self))\<rparr>, cell),
                     (new_group\<lparr>population :=
                         map (\<lambda>a. a\<lparr>moved := True, energy := energy a - 1\<rparr>)
                           (filter P (population self))\<rparr>, best_cell)])"
proof (cases "sort_key (\<lambda>c. - g 0 c) neighbours")
  case Nil
  then have "neighbours = []" by (metis length_sort length_0_conv)
  moreover from assms Nil have "res = [(self, cell)]" by (simp add: Herd_movement_def)
  ultimately show ?thesis by simp
next
  case (Cons best_cell others)
  then have best: "best_cell \<in> set neighbours"
    by (metis list.set_intros(1) set_sort)
  show ?thesis
  proof (cases "g 0 cell < int (length (population self)) \<and> g 0 cell < g 0 best_cell")
    case True
    let ?P = "\<lambda>a::animal. real_of_int (energy a) * social_attitude a \<ge> MIN_MOVEMENT_E
                           \<and> energy a > 1"
    from assms Cons True
    have "res = split_group self cell best_cell (filter ?P (population self))
                  (filter (\<lambda>a. real_of_int (energy a) * social_attitude a < MIN_MOVEMENT_E
                                \<or> energy a \<le> 1) (population self))"
      by (simp add: Herd_movement_def)
    then have "res = split_group self cell best_cell (filter ?P (population self))
                  (filter (\<lambda>a. \<not> ?P a) (population self))"
      by (simp only: follow_filters)
    then have res: "res = filter (\<lambda>gc. length (population (fst gc)) > 0)
                    [(self\<lparr>population := map (\<lambda>a. a\<lparr>moved := False\<rparr>)
                                           (filter (\<lambda>a. \<not> ?P a) (population self))\<rparr>, cell),
                     (new_group\<lparr>population :=
                         map (\<lambda>a. a\<lparr>moved := True, energy := energy a - 1\<rparr>)
                           (filter ?P (population self))\<rparr>, best_cell)]"
      by (simp only: split_group_unfold)
    have "\<forall>a\<in>set (population self). ?P a \<longrightarrow> 1 < energy a" by simp
    with best res show ?thesis
      by (intro disjI2 exI [of _ ?P] exI [of _ best_cell] conjI)
  next
    case False
    let ?P = "\<lambda>a. ratio_gt_and MAX_MOVEMENT_E a = Inr True"
    from assms Cons False obtain move stay where
      mv: "filter_e (ratio_gt_and MAX_MOVEMENT_E) (population self) = Inr move"
      and st: "filter_e (ratio_le_or MAX_MOVEMENT_E) (population self) = Inr stay"
      and r: "res = split_group self cell best_cell move stay"
      by (auto simp: Herd_movement_def split: sum.splits)
    from complementary_filters [OF mv st ratio_tests(1)]
    have "move = filter ?P (population self)"
      and "stay = filter (\<lambda>a. \<not> ?P a) (population self)" by simp_all
    with r have res: "res = filter (\<lambda>gc. length (population (fst gc)) > 0)
                    [(self\<lparr>population := map (\<lambda>a. a\<lparr>moved := False\<rparr>)
                                           (filter (\<lambda>a. \<not> ?P a) (population self))\<rparr>, cell),
                     (new_group\<lparr>population :=
                         map (\<lambda>a. a\<lparr>moved := True, energy := energy a - 1\<rparr>)
                           (filter ?P (population self))\<rparr>, best_cell)]"
      by (simp only: split_group_unfold)
    have "\<forall>a\<in>set (population self). ?P a \<longrightarrow> 1 < energy a"
      by (auto dest: ratio_tests(3))
    with best res show ?thesis
      by (intro disjI2 exI [of _ ?P] exI [of _ best_cell] conjI)
  qed
qed


lemma Pride_movement_outcome:
  assumes "Pride_movement r g cell neighbours self = Inr res"
  shows "(neighbours = [] \<and> res = [(self, cell)])
         \<or> (\<exists>P best_cell.
               best_cell \<in> set neighbours
               \<and> (\<forall>a\<in>set (population self). P a \<longrightarrow> 1 < energy a)
               \<and> res = filter (\<lambda>gc. length (population (fst gc)) > 0)
                    [(self\<lparr>population := map (\<lambda>a. a\<lparr>moved := False\<rparr>)
                                           (filter (\<lambda>a. \<not> P a) (population self))\<rparr>, cell),
                     (new_group\<lparr>population :=
                         map (\<lambda>a. a\<lparr>moved := True, energy := energy a - 1\<rparr>)
                           (filter P (population self))\<rparr>, best_cell)])"
proof (cases "sort_key (\<lambda>c. - g 1 c) neighbours")
  case Nil
  then have "neighbours = []" by (metis length_sort length_0_conv)
  moreover from assms Nil have "res = [(self, cell)]" by (simp add: Pride_movement_def)
  ultimately show ?thesis by simp
next
  case (Cons first_cell others)
  let ?best = "if g 1 first_cell = 0
               then (first_cell # others) ! (r mod length (first_cell # others))
               else first_cell"
  have "?best \<in> set (first_cell # others)"
    by (simp only: split: if_split, intro conjI impI nth_mem mod_less_divisor) simp_all
  then have best: "?best \<in> set neighbours"
    by (metis Cons set_sort)
  show ?thesis
  proof (cases "g 1 cell = 0")
    case True
    let ?P = "\<lambda>a::animal. real_of_int (energy a) * social_attitude a \<ge> MIN_MOVEMENT_C
                           \<and> energy a > 1"
    from assms Cons True
    have "res = split_group self cell ?best (filter ?P (population self))
                  (filter (\<lambda>a. real_of_int (energy a) * social_attitude a < MIN_MOVEMENT_C
                                \<or> energy a \<le> 1) (population self))"
      by (simp add: Pride_movement_def Let_def)
    then have "res = split_group self cell ?best (filter ?P (population self))
                  (filter (\<lambda>a. \<not> ?P a) (population self))"
      by (simp only: follow_filters)
    then have res: "res = filter (\<lambda>gc. length (population (fst gc)) > 0)
                    [(self\<lparr>population := map (\<lambda>a. a\<lparr>moved := False\<rparr>)
                                           (filter (\<lambda>a. \<not> ?P a) (population self))\<rparr>, cell),
                     (new_group\<lparr>population :=
                         map (\<lambda>a. a\<lparr>moved := True, energy := energy a - 1\<rparr>)
                           (filter ?P (population self))\<rparr>, ?best)]"
      by (simp only: split_group_unfold)
    have "\<forall>a\<in>set (population self). ?P a \<longrightarrow> 1 < energy a" by simp
    with best res show ?thesis
      by (intro disjI2 exI [of _ ?P] exI [of _ ?best] conjI)
  next
    case False
    let ?P = "\<lambda>a. ratio_le_and MAX_MOVEMENT_C a = Inr True"
    from assms Cons False obtain move stay where
      st: "filter_e (ratio_gt_or MAX_MOVEMENT_C) (population self) = Inr stay"
      and mv: "filter_e (ratio_le_and MAX_MOVEMENT_C) (population self) = Inr move"
      and r: "res = split_group self cell ?best move stay"
      by (auto simp: Pride_movement_def Let_def split: sum.splits)
    from complementary_filters [OF mv st ratio_tests(2)]
    have "move = filter ?P (population self)"
      and "stay = filter (\<lambda>a. \<not> ?P a) (population self)" by simp_all
    with r have res: "res = filter (\<lambda>gc. length (population (fst gc)) > 0)
                    [(self\<lparr>population := map (\<lambda>a. a\<lparr>moved := False\<rparr>)
                                           (filter (\<lambda>a. \<not> ?P a) (population self))\<rparr>, cell),
                     (new_group\<lparr>population :=
                         map (\<lambda>a. a\<lparr>moved := True, energy := energy a - 1\<rparr>)
                           (filter ?P (population self))\<rparr>, ?best)]"
      by (simp only: split_group_unfold)
    have "\<forall>a\<in>set (population self). ?P a \<longrightarrow> 1 < energy a"
      by (auto dest: ratio_tests(4))
    with best res show ?thesis
      by (intro disjI2 exI [of _ ?P] exI [of _ ?best] conjI)
  qed
qed


text \<open>
  C10. Movement never takes an animal's energy to 0 or below. Whenever \<open>Herd.movement\<close> or
  \<open>Pride.movement\<close> returns, either the group has no neighbour and is returned as it is,
  at its cell, or there is a test \<open>P\<close> that only animals with more than one point of
  energy pass, and the result is made of exactly two groups, less the empty ones: the
  animals of the population that fail \<open>P\<close> stay in the group at its cell, marked as not
  moved and otherwise unchanged, energy included; the animals that pass \<open>P\<close> form a new
  group at a neighbour cell, marked as moved, each with exactly one point of energy less
  and so with at least one point left.
\<close>

theorem movement_keeps_energy_positive:
  assumes "Herd_movement g cell neighbours self = Inr res
           \<or> Pride_movement r g cell neighbours self = Inr res"
  shows "(neighbours = [] \<and> res = [(self, cell)])
         \<or> (\<exists>P best_cell.
               best_cell \<in> set neighbours
               \<and> (\<forall>a\<in>set (population self). P a \<longrightarrow>
                     1 < energy a \<and> 1 \<le> energy (a\<lparr>moved := True, energy := energy a - 1\<rparr>))
               \<and> res = filter (\<lambda>gc. length (population (fst gc)) > 0)
                    [(self\<lparr>population := map (\<lambda>a. a\<lparr>moved := False\<rparr>)
                                           (filter (\<lambda>a. \<not> P a) (population self))\<rparr>, cell),
                     (new_group\<lparr>population :=
                         map (\<lambda>a. a\<lparr>moved := True, energy := energy a - 1\<rparr>)
                           (filter P (population self))\<rparr>, best_cell)])"
proof -
  from assms have "(neighbours = [] \<and> res = [(self, cell)])
         \<or> (\<exists>P best_cell.
               best_cell \<in> set neighbours
               \<and> (\<forall>a\<in>set (population self). P a \<longrightarrow> 1 < energy a)
               \<and> res = filter (\<lambda>gc. length (population (fst gc)) > 0)
                    [(self\<lparr>population := map (\<lambda>a. a\<lparr>moved := False\<rparr>)
                                           (filter (\<lambda>a. \<not> P a) (population self))\<rparr>, cell),
                     (new_group\<lparr>population :=
                         map (\<lambda>a. a\<lparr>moved := True, energy := energy a - 1\<rparr>)
                           (filter P (population self))\<rparr>, best_cell)])"
    by (elim disjE) (rule Herd_movement_outcome, assumption, rule Pride_movement_outcome, assumption)
  then show ?thesis
  proof (elim disjE exE conjE)
    assume "neighbours = []" and "res = [(self, cell)]"
    then show ?thesis by simp
  next
    fix P best_cell
    assume b: "best_cell \<in> set neighbours"
      and e: "\<forall>a\<in>set (population self). P a \<longrightarrow> 1 < energy a"
      and r: "res = filter (\<lambda>gc. length (population (fst gc)) > 0)
                    [(self\<lparr>population := map (\<lambda>a. a\<lparr>moved := False\<rparr>)
                                           (filter (\<lambda>a. \<not> P a) (population self))\<rparr>, cell),
                     (new_group\<lparr>population :=
                         map (\<lambda>a. a\<lparr>moved := True, energy := energy a - 1\<rparr>)
                           (filter P (population self))\<rparr>, best_cell)]"
    from e have "\<forall>a\<in>set (population self). P a \<longrightarrow>
                     1 < energy a \<and> 1 \<le> energy (a\<lparr>moved := True, energy := energy a - 1\<rparr>)"
      by auto
    with b r show ?thesis
      by (intro disjI2 exI [of _ P] exI [of _ best_cell] conjI)
  qed
qed

theorem movement_keeps_energy_positive_witness:
  "\<exists>P best_cell.
     best_cell \<in> set [(1, 2) :: cell]
     \<and> (\<forall>a\<in>set (population (new_group\<lparr>population := [create_animal 50 500 0.5, create_animal 50 500 0.1]\<rparr>)). P a \<longrightarrow>
           1 < energy a \<and> 1 \<le> energy (a\<lparr>moved := True, energy := energy a - 1\<rparr>))
     \<and> [(new_group\<lparr>population := [create_animal 50 500 0.5]\<rparr>, (1, 1)),
         (new_group\<lparr>population := [create_animal 49 500 0.1\<lparr>moved := True\<rparr>]\<rparr>, (1, 2))]
       = filter (\<lambda>gc. length (population (fst gc)) > 0)
           [((new_group\<lparr>population := [create_animal 50 500 0.5, create_animal 50 500 0.1]\<rparr>)\<lparr>population := map (\<lambda>a. a\<lparr>moved := False\<rparr>)
                (filter (\<lambda>a. \<not> P a) (population (new_group\<lparr>population := [create_animal 50 500 0.5, create_animal 50 500 0.1]\<rparr>)))\<rparr>,
             (1, 1)),
            (new_group\<lparr>population := map (\<lambda>a. a\<lparr>moved := True, energy := energy a - 1\<rparr>)
                (filter P (population (new_group\<lparr>population := [create_animal 50 500 0.5, create_animal 50 500 0.1]\<rparr>)))\<rparr>, best_cell)]"
proof -
  have run: "Herd_movement (\<lambda>k c. if k = 1 then 5 else 50) (1, 1) [(1, 2)] (new_group\<lparr>population := [create_animal 50 500 0.5, create_animal 50 500 0.1]\<rparr>)
   = Inr [(new_group\<lparr>population := [create_animal 50 500 0.5]\<rparr>, (1, 1)),
          (new_group\<lparr>population := [create_animal 49 500 0.1\<lparr>moved := True\<rparr>]\<rparr>, (1, 2))]"
    by (simp add: Herd_movement_def ratio_gt_and_def ratio_le_or_def truediv_def
          split_group_def mark_moved_def mark_stayed_def MAX_MOVEMENT_E_def create_animal_def
          new_group_def)
  from movement_keeps_energy_positive [OF disjI1 [OF run]]
  show ?thesis
  proof (elim disjE)
    assume "[(1, 2)] = ([] :: cell list)
            \<and> [(new_group\<lparr>population := [create_animal 50 500 0.5]\<rparr>, (1, 1)),
                (new_group\<lparr>population := [create_animal 49 500 0.1\<lparr>moved := True\<rparr>]\<rparr>, (1, 2))]
              = [((new_group\<lparr>population := [create_animal 50 500 0.5, create_animal 50 500 0.1]\<rparr>), (1, 1))]"
    then have False by simp
    then show ?thesis ..
  qed
qed

section \<open>Sharing the prey\<close>

lemma sum_spare:
  assumes "0 \<le> r" "r \<le> int m"
  shows "(\<Sum>i<m. if int i < r then (1::int) else 0) = r"
proof -
  have "(\<Sum>i<m. if int i < r then (1::int) else 0) = (\<Sum>i<m. if i < nat r then 1 else 0)"
    by (rule sum.cong) (use assms in auto)
  also have "\<dots> = int (card ({..<m} \<inter> {i. i < nat r}))"
    by (simp add: sum.If_cases)
  also have "{..<m} \<inter> {i. i < nat r} = {..<nat r}"
    using assms by auto
  finally show ?thesis using assms by simp
qed

lemma sum_shares:
  assumes "0 < m"
  shows "(\<Sum>i<m. E div int m + (if int i < E mod int m then 1 else 0)) = E"
proof -
  have "(\<Sum>i<m. E div int m + (if int i < E mod int m then 1 else 0))
        = int m * (E div int m) + (\<Sum>i<m. if int i < E mod int m then 1 else 0)"
    by (simp add: sum.distrib)
  also have "(\<Sum>i<m. if int i < E mod int m then (1::int) else 0) = E mod int m"
    using assms by (intro sum_spare) (simp_all add: less_imp_le)
  finally show ?thesis by simp
qed

lemma sort_desc_head:
  assumes "sort_key (\<lambda>a. - energy a) xs = prey # rest"
  shows "prey \<in> set xs" "\<forall>a\<in>set xs. energy a \<le> energy prey" "mset xs = add_mset prey (mset rest)"
proof -
  have s: "set xs = set (prey # rest)" and m: "mset xs = mset (prey # rest)"
    using assms by (metis set_sort, metis mset_sort)
  show "prey \<in> set xs" using s by simp
  have "sorted (map (\<lambda>a. - energy a) (prey # rest))"
    using assms by (metis sorted_sort_key)
  then show "\<forall>a\<in>set xs. energy a \<le> energy prey" using s by auto
  show "mset xs = add_mset prey (mset rest)" using m by simp
qed

lemma fed_nth:
  assumes "i < length xs"
  shows "(map (feed (q + 1)) (take k xs) @ map (feed q) (drop k xs)) ! i
           = feed (q + (if i < k then 1 else 0)) (xs ! i)"
  using assms by (auto simp: nth_append min_def)


text \<open>
  C6. When a pride of \<open>n \<ge> 1\<close> Carviz hunts a herd that holds at least one Erbast, the hunt
  returns; an Erbast \<open>prey\<close> of highest energy \<open>E\<close> is removed from the herd and the
  count of Erbast in the cell drops by one. With the pride in ascending order of energy,
  the member at position \<open>i\<close> receives \<open>E div n\<close>, plus one if \<open>i < E mod n\<close>, its
  energy capped at \<open>MAX_ENERGY_C\<close>, and its social attitude grows by \<open>EAT_C\<close>. The shares
  add up to \<open>E\<close>.
\<close>

theorem hunting_shares_prey:
  assumes "population herd \<noteq> []" and "population self \<noteq> []"
  shows "\<exists>g' self' herd' prey.
     Pride_hunting g cell self (Some herd) = Inr (g', self', Some herd')
     \<and> prey \<in> set (population herd)
     \<and> (\<forall>a\<in>set (population herd). energy a \<le> energy prey)
     \<and> mset (population herd) = add_mset prey (mset (population herd'))
     \<and> g' 1 cell = g 1 cell - 1
     \<and> length (population self') = length (population self)
     \<and> (\<forall>i<length (population self).
           energy (population self' ! i)
             = min (energy (sort_key energy (population self) ! i)
                      + (energy prey div int (length (population self))
                         + (if int i < energy prey mod int (length (population self))
                            then 1 else 0)))
                   MAX_ENERGY_C
           \<and> social_attitude (population self' ! i)
               = social_attitude (sort_key energy (population self) ! i) + EAT_C)
     \<and> (\<Sum>i<length (population self).
            energy prey div int (length (population self))
            + (if int i < energy prey mod int (length (population self)) then 1 else 0))
         = energy prey"
proof -
  from assms(1) obtain prey rest where
    srt: "sort_key (\<lambda>a. - energy a) (population herd) = prey # rest"
    by (metis length_sort list.exhaust list.size(3) length_0_conv)
  let ?n = "length (population self)"
  let ?sorted = "sort_key energy (population self)"
  let ?q = "energy prey div int ?n"
  let ?r = "energy prey mod int ?n"
  let ?fed = "map (feed (?q + 1)) (take (nat ?r) ?sorted) @ map (feed ?q) (drop (nat ?r) ?sorted)"
  from assms(2) have n: "0 < ?n" by simp
  have run: "Pride_hunting g cell self (Some herd)
     = Inr (grid_set g 1 cell (g 1 cell - 1), self\<lparr>population := ?fed\<rparr>,
            Some (herd\<lparr>population := rest\<rparr>))"
  proof -
    have "?sorted \<noteq> []"
      using assms(2) by (metis length_sort length_0_conv)
    then show ?thesis by (simp add: Pride_hunting_def srt Let_def)
  qed
  have c1: "prey \<in> set (population herd)"
    and c2: "\<forall>a\<in>set (population herd). energy a \<le> energy prey"
    and c3: "mset (population herd) = add_mset prey (mset (population (herd\<lparr>population := rest\<rparr>)))"
    using sort_desc_head [OF srt] by simp_all
  have c4: "(grid_set g 1 cell (g 1 cell - 1)) 1 cell = g 1 cell - 1"
    by (simp add: grid_set_def)
  have c5: "length (population (self\<lparr>population := ?fed\<rparr>)) = ?n"
    by simp
  have c6: "\<forall>i<?n. energy (population (self\<lparr>population := ?fed\<rparr>) ! i)
             = min (energy (?sorted ! i) + (?q + (if int i < ?r then 1 else 0))) MAX_ENERGY_C
           \<and> social_attitude (population (self\<lparr>population := ?fed\<rparr>) ! i)
               = social_attitude (?sorted ! i) + EAT_C"
  proof (intro allI impI)
    fix i assume i: "i < ?n"
    then have "?fed ! i = feed (?q + (if i < nat ?r then 1 else 0)) (?sorted ! i)"
      by (intro fed_nth) simp
    moreover have "(i < nat ?r) = (int i < ?r)" by auto
    ultimately show "energy (population (self\<lparr>population := ?fed\<rparr>) ! i)
             = min (energy (?sorted ! i) + (?q + (if int i < ?r then 1 else 0))) MAX_ENERGY_C
           \<and> social_attitude (population (self\<lparr>population := ?fed\<rparr>) ! i)
               = social_attitude (?sorted ! i) + EAT_C"
      by (simp add: feed_def add.assoc)
  qed
  have c7: "(\<Sum>i<?n. ?q + (if int i < ?r then 1 else 0)) = energy prey"
    using n by (rule sum_shares)
  show ?thesis
    by (intro exI conjI) (rule run, rule c1, rule c2, rule c3, rule c4, rule c5, rule c6, rule c7)
qed

theorem hunting_shares_prey_witness:
  "\<exists>g' self' herd' prey.
     Pride_hunting (\<lambda>k c. if k = 1 then 2 else 50) (1, 1)
         (new_group\<lparr>population := [create_animal 30 500 0.5, create_animal 10 500 0.5,
             create_animal 50 500 0.5, create_animal 20 500 0.5, create_animal 40 500 0.5]\<rparr>)
         (Some (new_group\<lparr>population := [create_animal 7 500 0.5, create_animal 23 500 0.5]\<rparr>))
       = Inr (g', self', Some herd')
     \<and> mset (population (new_group\<lparr>population :=
               [create_animal 7 500 0.5, create_animal 23 500 0.5]\<rparr>))
         = add_mset prey (mset (population herd'))
     \<and> g' 1 (1, 1) = 1"
proof -
  have h1: "population (new_group\<lparr>population :=
               [create_animal 7 500 0.5, create_animal 23 500 0.5]\<rparr>) \<noteq> []"
    by simp
  have h2: "population (new_group\<lparr>population := [create_animal 30 500 0.5,
               create_animal 10 500 0.5, create_animal 50 500 0.5, create_animal 20 500 0.5,
               create_animal 40 500 0.5]\<rparr>) \<noteq> []"
    by simp
  from hunting_shares_prey [OF h1 h2, of "\<lambda>k c. if k = 1 then 2 else 50" "(1, 1)"]
  obtain g' self' herd' prey where
    a: "Pride_hunting (\<lambda>k c. if k = 1 then 2 else 50) (1, 1)
         (new_group\<lparr>population := [create_animal 30 500 0.5, create_animal 10 500 0.5,
             create_animal 50 500 0.5, create_animal 20 500 0.5, create_animal 40 500 0.5]\<rparr>)
         (Some (new_group\<lparr>population := [create_animal 7 500 0.5, create_animal 23 500 0.5]\<rparr>))
       = Inr (g', self', Some herd')"
    and b: "mset (population (new_group\<lparr>population :=
               [create_animal 7 500 0.5, create_animal 23 500 0.5]\<rparr>))
         = add_mset prey (mset (population herd'))"
    and c: "g' 1 (1, 1) = (if (1::nat) = 1 then 2 else 50) - 1"
    by blast
  from c have "g' 1 (1, 1) = 1" by simp
  with a b show ?thesis by blast
qed


section \<open>Counts of the grid after a day\<close>

lemma keys_dict_set:
  "set (map fst (dict_set k v d)) = insert k (set (map fst d))"
  by (induction d) auto

lemma distinct_dict_set:
  "distinct (map fst d) \<Longrightarrow> distinct (map fst (dict_set k v d))"
proof (induction d)
  case Nil
  then show ?case by simp
next
  case (Cons kv d)
  then show ?case using keys_dict_set [of k v d] by auto
qed

lemma distinct_place:
  "distinct (map fst res) \<Longrightarrow> distinct (map fst (place after res))"
  unfolding place_def
  by (induction after arbitrary: res) (simp_all add: distinct_dict_set)

lemma distinct_move_herds:
  "distinct (map fst res) \<Longrightarrow> move_herds w hs res = Inr res' \<Longrightarrow> distinct (map fst res')"
  by (induction hs arbitrary: res) (auto split: sum.splits intro: distinct_place)

lemma distinct_move_prides:
  "distinct (map fst res) \<Longrightarrow> move_prides r w ps res = Inr res' \<Longrightarrow> distinct (map fst res')"
  by (induction ps arbitrary: res) (auto split: sum.splits intro: distinct_place)

lemma keys_unify_herds:
  "unify_herds ls = Inr hs \<Longrightarrow> map fst hs = map fst ls"
  by (induction ls arbitrary: hs) (auto split: sum.splits list.splits)

lemma keys_unify_prides:
  "unify_prides fd ls = Inr ps \<Longrightarrow> map fst ps = map fst ls"
  by (induction ls arbitrary: ps) (auto split: sum.splits)

lemma keys_graze_herds:
  "graze_herds g hs = Inr (g', hs') \<Longrightarrow> map fst hs' = map fst hs"
  by (induction hs arbitrary: g g' hs') (auto split: sum.splits prod.splits)

lemma keys_hunt_prides:
  "hunt_prides g hs ps = Inr (g', hs', ps') \<Longrightarrow>
     map fst ps' = map fst ps \<and> (distinct (map fst hs) \<longrightarrow> distinct (map fst hs'))"
proof (induction ps arbitrary: g hs g' hs' ps')
  case Nil
  then show ?case by simp
next
  case (Cons cp ps)
  then show ?case
    by (auto split: sum.splits prod.splits option.splits simp: distinct_dict_set)
qed

lemma keys_spawn_groups:
  "spawn_groups method draws g gs = Inr (g', gs') \<Longrightarrow> map fst gs' = map fst gs"
  by (induction gs arbitrary: g g' gs') (auto split: sum.splits prod.splits)

lemma fold_assign:
  "distinct (map fst items) \<Longrightarrow>
     fold (\<lambda>cg layer. layer(fst cg := f (snd cg))) items init c
       = (case map_of items c of None \<Rightarrow> init c | Some g \<Rightarrow> f g)"
proof (induction items arbitrary: init)
  case Nil
  then show ?case by simp
next
  case (Cons x xs)
  then have "fst x \<notin> fst ` set xs" by simp
  then have "map_of xs (fst x) = None" by (simp add: map_of_eq_None_iff)
  with Cons show ?case by (cases x) (auto split: option.splits)
qed

lemma size_layer_lookup:
  "distinct (map fst items) \<Longrightarrow>
     size_layer items c
       = (case map_of items c of None \<Rightarrow> 0 | Some g \<Rightarrow> int (length (population g)))"
  unfolding size_layer_def by (rule fold_assign)

lemma distinct_filter_keys:
  "distinct (map fst xs) \<Longrightarrow> distinct (map fst (filter P xs))"
  by (simp add: distinct_map_filter)

lemma distinct_movement:
  assumes "movement r w = Inr mg"
  shows "distinct (map fst (fst mg)) \<and> distinct (map fst (snd mg))"
proof -
  from assms obtain rh rp where
    "move_herds w (herds w) [] = Inr rh" "move_prides r w (prides w) [] = Inr rp" "mg = (rh, rp)"
    by (auto simp: movement_def split: sum.splits)
  then show ?thesis
    using distinct_move_herds [of "[]" w "herds w" rh]
      distinct_move_prides [of "[]" r w "prides w" rp] by simp
qed

lemma distinct_unify_groups:
  assumes "unify_groups fd w mg = Inr w2"
    and "distinct (map fst (fst mg)) \<and> distinct (map fst (snd mg))"
  shows "distinct (map fst (herds w2)) \<and> distinct (map fst (prides w2))"
proof -
  from assms(1) obtain hs ps where
    "unify_herds (fst mg) = Inr hs" "unify_prides fd (snd mg) = Inr ps"
    "herds w2 = hs" "prides w2 = ps"
    by (auto simp: unify_groups_def split: sum.splits)
  with assms(2) show ?thesis
    using keys_unify_herds [of "fst mg" hs] keys_unify_prides [of fd "snd mg" ps] by simp
qed

lemma distinct_grazing:
  assumes "grazing w = Inr w3"
    and "distinct (map fst (herds w)) \<and> distinct (map fst (prides w))"
  shows "distinct (map fst (herds w3)) \<and> distinct (map fst (prides w3))"
proof -
  from assms(1) obtain g hs where
    "graze_herds (grid w) (herds w) = Inr (g, hs)" "herds w3 = hs" "prides w3 = prides w"
    by (auto simp: grazing_def split: sum.splits)
  with assms(2) show ?thesis
    using keys_graze_herds [of "grid w" "herds w" g hs] by simp
qed

lemma distinct_hunting:
  assumes "hunting w = Inr w4"
    and "distinct (map fst (herds w)) \<and> distinct (map fst (prides w))"
  shows "distinct (map fst (herds w4)) \<and> distinct (map fst (prides w4))"
proof -
  from assms(1) obtain g hs ps where
    "hunt_prides (grid w) (herds w) (prides w) = Inr (g, hs, ps)" "herds w4 = hs" "prides w4 = ps"
    by (auto simp: hunting_def split: sum.splits)
  with assms(2) show ?thesis
    using keys_hunt_prides [of "grid w" "herds w" "prides w" g hs ps] by simp
qed

lemma distinct_spawning:
  assumes "spawning dr w = Inr w5"
    and "distinct (map fst (herds w)) \<and> distinct (map fst (prides w))"
  shows "distinct (map fst (herds w5)) \<and> distinct (map fst (prides w5))"
proof -
  from assms(1) obtain g hs g' ps where
    "spawn_groups Herd_spawning (herd_spawn_draw dr) (grid w) (herds w) = Inr (g, hs)"
    "spawn_groups Pride_spawning (pride_spawn_draw dr) g (prides w) = Inr (g', ps)"
    "herds w5 = hs" "prides w5 = ps"
    by (auto simp: spawning_def split: sum.splits)
  with assms(2) show ?thesis
    using keys_spawn_groups [of Herd_spawning "herd_spawn_draw dr" "grid w" "herds w" g hs]
      keys_spawn_groups [of Pride_spawning "pride_spawn_draw dr" g "prides w" g' ps] by simp
qed

lemma distinct_remove_empty_groups:
  assumes "distinct (map fst (herds w)) \<and> distinct (map fst (prides w))"
  shows "distinct (map fst (herds (remove_empty_groups w)))
         \<and> distinct (map fst (prides (remove_empty_groups w)))"
  using assms by (simp add: remove_empty_groups_def distinct_filter_keys)

lemma counts_World_update_stats:
  assumes "distinct (map fst (herds w)) \<and> distinct (map fst (prides w))"
  shows "distinct (map fst (herds (World_update_stats w)))
         \<and> distinct (map fst (prides (World_update_stats w)))
         \<and> grid (World_update_stats w) 1 c
             = (case map_of (herds (World_update_stats w)) c of
                  None \<Rightarrow> 0 | Some h \<Rightarrow> int (length (population h)))
         \<and> grid (World_update_stats w) 2 c
             = (case map_of (prides (World_update_stats w)) c of
                  None \<Rightarrow> 0 | Some p \<Rightarrow> int (length (population p)))"
  using assms
  by (simp add: World_update_stats_def Let_def size_layer_lookup o_def)

text \<open>
  C2. When a day has run through all its phases, every cell holds at most one herd and at
  most one pride, and for every cell \<open>c\<close> the count of Erbast in the grid is the size of
  the herd of \<open>c\<close>, or 0 if \<open>c\<close> has no herd, and the count of Carviz is the size of the
  pride of \<open>c\<close>, or 0 if \<open>c\<close> has no pride.
\<close>

theorem day_counts_match:
  assumes "a_day_on_planysuss dr w = Inr w'"
  shows "distinct (map fst (herds w')) \<and> distinct (map fst (prides w'))
         \<and> grid w' 1 c
             = (case map_of (herds w') c of None \<Rightarrow> 0 | Some h \<Rightarrow> int (length (population h)))
         \<and> grid w' 2 c
             = (case map_of (prides w') c of None \<Rightarrow> 0 | Some p \<Rightarrow> int (length (population p)))"
proof -
  from assms obtain mg w2 w3 w4 w5 where
    mv: "movement (choice_draw dr) (overwhelming (growing w)) = Inr mg"
    and un: "unify_groups (fight_draw dr) (overwhelming (growing w)) mg = Inr w2"
    and gr: "grazing w2 = Inr w3"
    and hu: "hunting w3 = Inr w4"
    and sp: "spawning dr w4 = Inr w5"
    and w': "w' = (World_update_stats (remove_empty_groups w5))
                    \<lparr>day := day (World_update_stats (remove_empty_groups w5)) + 1\<rparr>"
    by (auto simp: a_day_on_planysuss_def Let_def split: sum.splits)
  have "distinct (map fst (herds w5)) \<and> distinct (map fst (prides w5))"
    by (rule distinct_spawning [OF sp], rule distinct_hunting [OF hu],
        rule distinct_grazing [OF gr], rule distinct_unify_groups [OF un],
        rule distinct_movement [OF mv])
  then have "distinct (map fst (herds (remove_empty_groups w5)))
         \<and> distinct (map fst (prides (remove_empty_groups w5)))"
    by (rule distinct_remove_empty_groups)
  from counts_World_update_stats [OF this, of c] show ?thesis
    by (simp add: w')
qed

theorem day_counts_match_witness:
  "\<exists>w'. a_day_on_planysuss
       \<lparr>choice_draw = (\<lambda>c. 0), fight_draw = (\<lambda>c k. (0, 0)),
         herd_spawn_draw = (\<lambda>c i. (1, 1, 0.5)), pride_spawn_draw = (\<lambda>c i. (1, 1, 0.5))\<rparr>
       \<lparr>NR = 3, NC = 4,
         grid = (\<lambda>k c. if k = 0 then (if c = (1, 1) then 10 else if c = (1, 2) then 3 else -100)
                        else if k = 1 \<and> c = (1, 1) then 1
                        else if k = 2 \<and> c = (1, 2) then 1 else 0),
         day = 1, ground_cells = [(1, 1), (1, 2)],
         herds = [((1, 1), new_group\<lparr>population := [create_animal 50 100 0.5]\<rparr>)],
         prides = [((1, 2), new_group\<lparr>population := [create_animal 50 100 0.5]\<rparr>)]\<rparr>
       = Inr w'
     \<and> herds w' = [] \<and> map fst (prides w') = [(1, 1)]
     \<and> grid w' 1 (1, 1) = 0
     \<and> grid w' 2 (1, 1)
         = (case map_of (prides w') (1, 1) of None \<Rightarrow> 0 | Some p \<Rightarrow> int (length (population p)))"
proof -
  let ?day = "a_day_on_planysuss
       \<lparr>choice_draw = (\<lambda>c. 0), fight_draw = (\<lambda>c k. (0, 0)),
         herd_spawn_draw = (\<lambda>c i. (1, 1, 0.5)), pride_spawn_draw = (\<lambda>c i. (1, 1, 0.5))\<rparr>
       \<lparr>NR = 3, NC = 4,
         grid = (\<lambda>k c. if k = 0 then (if c = (1, 1) then 10 else if c = (1, 2) then 3 else -100)
                        else if k = 1 \<and> c = (1, 1) then 1
                        else if k = 2 \<and> c = (1, 2) then 1 else 0),
         day = 1, ground_cells = [(1, 1), (1, 2)],
         herds = [((1, 1), new_group\<lparr>population := [create_animal 50 100 0.5]\<rparr>)],
         prides = [((1, 2), new_group\<lparr>population := [create_animal 50 100 0.5]\<rparr>)]\<rparr>"
  have "case ?day of Inl e \<Rightarrow> False
        | Inr w' \<Rightarrow> herds w' = [] \<and> map fst (prides w') = [(1, 1)]"
    by code_simp
  then obtain w' where run: "?day = Inr w'"
    and hs: "herds w' = []" and ps: "map fst (prides w') = [(1, 1)]"
    by (cases ?day) auto
  from day_counts_match [OF run, of "(1, 1)"] hs
  have g1: "grid w' 1 (1, 1) = 0"
    and g2: "grid w' 2 (1, 1)
         = (case map_of (prides w') (1, 1) of None \<Rightarrow> 0 | Some p \<Rightarrow> int (length (population p)))"
    by simp_all
  show ?thesis
    by (intro exI [of _ w'] conjI) (rule run, rule hs, rule ps, rule g1, rule g2)
qed

section \<open>Faults in the movement phase\<close>

lemma case_error_eq:
  "(case x of Inl e \<Rightarrow> e = c | Inr w \<Rightarrow> False) \<longleftrightarrow> x = Inl c"
  by (cases x) auto

text \<open>
  C9. No phase is meant to raise a fault, the divisions of the movement phase included.
  \<open>random.random()\<close> returns a value in \<open>[0, 1)\<close>, 0 included: a herd that
  \<open>Group.world_init\<close> creates with that draw holds Erbast of social attitude 0. On a cell
  with enough Vegetob the herd stays, \<open>Herd.movement\<close> evaluates
  \<open>energy / social_attitude\<close> for each of its animals and raises ZeroDivisionError, and
  so does the day of a world that holds this herd.
\<close>

theorem movement_divides_by_zero:
  "valid_init_draw MAX_ENERGY_E MAX_LIFE_E (50, 100, 0)
   \<and> (case Herd_world_init
           (\<lambda>k c. if k = 0 then (if c = (1, 1) then 99 else if c = (1, 2) then 50 else -100)
                  else 0)
           (1, 1) 10 (\<lambda>i. (50, 100, 0)) new_group of
         Inl e \<Rightarrow> False
       | Inr (g, herd) \<Rightarrow>
           length (population herd) = 10
           \<and> Herd_movement g (1, 1) [(1, 2)] herd = Inl ZeroDivisionError
           \<and> a_day_on_planysuss
                \<lparr>choice_draw = (\<lambda>c. 0), fight_draw = (\<lambda>c k. (0, 0)),
                  herd_spawn_draw = (\<lambda>c i. (1, 1, 0.5)),
                  pride_spawn_draw = (\<lambda>c i. (1, 1, 0.5))\<rparr>
                \<lparr>NR = 3, NC = 4, grid = g, day = 1, ground_cells = [(1, 1), (1, 2)],
                  herds = [((1, 1), herd)], prides = []\<rparr>
               = Inl ZeroDivisionError)"
proof -
  have "valid_init_draw MAX_ENERGY_E MAX_LIFE_E (50, 100, 0)
   \<and> (case Herd_world_init
           (\<lambda>k c. if k = 0 then (if c = (1, 1) then 99 else if c = (1, 2) then 50 else -100)
                  else 0)
           (1, 1) 10 (\<lambda>i. (50, 100, 0)) new_group of
         Inl e \<Rightarrow> False
       | Inr (g, herd) \<Rightarrow>
           length (population herd) = 10
           \<and> Herd_movement g (1, 1) [(1, 2)] herd = Inl ZeroDivisionError
           \<and> (case a_day_on_planysuss
                \<lparr>choice_draw = (\<lambda>c. 0), fight_draw = (\<lambda>c k. (0, 0)),
                  herd_spawn_draw = (\<lambda>c i. (1, 1, 0.5)),
                  pride_spawn_draw = (\<lambda>c i. (1, 1, 0.5))\<rparr>
                \<lparr>NR = 3, NC = 4, grid = g, day = 1, ground_cells = [(1, 1), (1, 2)],
                  herds = [((1, 1), herd)], prides = []\<rparr> of
                 Inl e \<Rightarrow> e = ZeroDivisionError | Inr w \<Rightarrow> False))"
    by code_simp
  then show ?thesis
    by (simp only: case_error_eq)
qed

end
